theory Spec2Isabelle
  imports Complex_Main "HOL-Library.AList"
begin

section \<open>Values shared by the examples and the fixtures\<close>

text \<open>
  Request bodies and token payloads are JSON objects: Python dicts from field names to
  JSON values. Numbers are finite and kept exact (a Python float is read as the real it
  denotes; the literals \<open>NaN\<close> and \<open>Infinity\<close> are left out).
\<close>

datatype json =
    JNull
  | JBool bool
  | JNum real
  | JStr string
  | JArr "json list"
  | JObj "(string \<times> json) list"

type_synonym py_dict = "string \<rightharpoonup> json"

text \<open>
  The exceptions of the \<open>jwt\<close> package that \<open>jwt.decode\<close> can raise. Every one of them
  is a subclass of \<open>InvalidTokenError\<close>.
\<close>

datatype jwt_error =
    ExpiredSignatureError
  | DecodeError
  | InvalidSignatureError
  | InvalidAlgorithmError
  | ImmatureSignatureError
  | InvalidIssuedAtError
  | InvalidAudienceError
  | InvalidSubjectError
  | InvalidJTIError

text \<open>
  Every exception a request can end with is a value. \<open>HTTPException\<close> carries the status
  code and the detail, as \<open>verify_token\<close> raises it. \<open>InvalidTokenError\<close> is the base
  class of the \<open>jwt\<close> errors. \<open>ValidationError\<close> is pydantic's. \<open>IntegrityError\<close> is the
  ORM's report of a violated \<open>unique=True\<close> column, \<open>OperationalError\<close> its report that
  the database engine found no free primary key, and \<open>OverflowError\<close> the SQLite
  driver's refusal of an integer beyond 64 bits. \<open>NotFound\<close> and \<open>Forbidden\<close> are the two
  failures the specification names for the generated routes. \<open>TypeError\<close> and
  \<open>RuntimeError\<close> are Python's own.
\<close>

datatype error =
    HTTPException nat string
  | InvalidTokenError jwt_error
  | ValidationError
  | IntegrityError
  | OperationalError
  | OverflowError
  | NotFound
  | Forbidden
  | TypeError
  | RuntimeError string

section \<open>Authentication: \<open>examples/advanced_example.py\<close>\<close>

definition SECRET_KEY :: string where
  "SECRET_KEY = ''your-secret-key-here''"

definition ALGORITHM :: string where
  "ALGORITHM = ''HS256''"

record TokenData =
  TokenData_username :: string
  TokenData_role :: string

subsection \<open>The \<open>jwt\<close> package, symbolically\<close>

text \<open>
  The \<open>jwt\<close> package (PyJWT) is imported, not part of the repository. A token is
  modelled symbolically: either a string that is not a JWS at all, or a payload together
  with the algorithm named in its header and the key its signature was computed with. A
  signature verifies under a key exactly when it was made with that key (an ideal MAC).
\<close>

datatype token = Malformed | Signed string string py_dict

definition jwt_encode :: "py_dict \<Rightarrow> string \<Rightarrow> string \<Rightarrow> token" where
  "jwt_encode payload key algorithm = Signed algorithm key payload"

text \<open>Python's \<open>int(x)\<close> on a float truncates towards zero.\<close>

definition py_int :: "real \<Rightarrow> int" where
  "py_int x = (if 0 \<le> x then \<lfloor>x\<rfloor> else \<lceil>x\<rceil>)"

text \<open>
  Python's \<open>int(v)\<close> on a decoded JSON value, as the package applies it to the time
  claims: a number is truncated, \<open>True\<close> is 1 and \<open>False\<close> is 0, a string is parsed,
  and \<open>None\<close>, a list or a dict is a \<open>TypeError\<close>. What the builtin makes of a string
  is the parameter \<open>int_of_str\<close>: the integer, or \<open>None\<close> where it raises \<open>ValueError\<close>.
\<close>

datatype int_result = IntOk int | IntValueError | IntTypeError

definition py_int_of :: "(string \<Rightarrow> int option) \<Rightarrow> json \<Rightarrow> int_result" where
  "py_int_of int_of_str v =
     (case v of
        JNull \<Rightarrow> IntTypeError
      | JBool b \<Rightarrow> IntOk (if b then 1 else 0)
      | JNum x \<Rightarrow> IntOk (py_int x)
      | JStr s \<Rightarrow> (case int_of_str s of None \<Rightarrow> IntValueError | Some n \<Rightarrow> IntOk n)
      | JArr xs \<Rightarrow> IntTypeError
      | JObj kvs \<Rightarrow> IntTypeError)"

text \<open>
  The claim checks of \<open>jwt.decode\<close> with its default options, no audience, issuer or
  subject given and no leeway, as PyJWT 2.10 makes them. Each returns the exception it
  raises, if any. \<open>now\<close> is the UTC clock the package reads. A \<open>ValueError\<close> of \<open>int\<close>
  is caught and turned into the package's own error; a \<open>TypeError\<close> is not caught.

  \<open>iat\<close>: must be an integer and not lie in the future.
\<close>

definition validate_iat :: "(string \<Rightarrow> int option) \<Rightarrow> real \<Rightarrow> py_dict \<Rightarrow> error option" where
  "validate_iat int_of_str now payload =
     (case payload ''iat'' of
        None \<Rightarrow> None
      | Some v \<Rightarrow>
          (case py_int_of int_of_str v of
             IntTypeError \<Rightarrow> Some TypeError
           | IntValueError \<Rightarrow> Some (InvalidTokenError InvalidIssuedAtError)
           | IntOk iat \<Rightarrow>
               if now < real_of_int iat then Some (InvalidTokenError ImmatureSignatureError)
               else None))"

text \<open>\<open>nbf\<close>: must be an integer and not lie in the future.\<close>

definition validate_nbf :: "(string \<Rightarrow> int option) \<Rightarrow> real \<Rightarrow> py_dict \<Rightarrow> error option" where
  "validate_nbf int_of_str now payload =
     (case payload ''nbf'' of
        None \<Rightarrow> None
      | Some v \<Rightarrow>
          (case py_int_of int_of_str v of
             IntTypeError \<Rightarrow> Some TypeError
           | IntValueError \<Rightarrow> Some (InvalidTokenError DecodeError)
           | IntOk nbf \<Rightarrow>
               if now < real_of_int nbf then Some (InvalidTokenError ImmatureSignatureError)
               else None))"

text \<open>
  \<open>exp\<close>: a payload with no \<open>exp\<close> never expires; otherwise \<open>int(exp)\<close> is taken and the
  token is expired once that second is not after the current time.
\<close>

definition validate_exp :: "(string \<Rightarrow> int option) \<Rightarrow> real \<Rightarrow> py_dict \<Rightarrow> error option" where
  "validate_exp int_of_str now payload =
     (case payload ''exp'' of
        None \<Rightarrow> None
      | Some v \<Rightarrow>
          (case py_int_of int_of_str v of
             IntTypeError \<Rightarrow> Some TypeError
           | IntValueError \<Rightarrow> Some (InvalidTokenError DecodeError)
           | IntOk e \<Rightarrow>
               if real_of_int e \<le> now then Some (InvalidTokenError ExpiredSignatureError)
               else None))"

text \<open>Python's truth value of a decoded JSON value.\<close>

definition truthy :: "json \<Rightarrow> bool" where
  "truthy v =
     (case v of
        JNull \<Rightarrow> False
      | JBool b \<Rightarrow> b
      | JNum x \<Rightarrow> x \<noteq> 0
      | JStr s \<Rightarrow> s \<noteq> []
      | JArr xs \<Rightarrow> xs \<noteq> []
      | JObj kvs \<Rightarrow> kvs \<noteq> [])"

text \<open>
  \<open>aud\<close>: \<open>verify_token\<close> passes no audience, so a token that names one (a truthy
  \<open>aud\<close>) is refused.
\<close>

definition validate_aud :: "py_dict \<Rightarrow> error option" where
  "validate_aud payload =
     (case payload ''aud'' of
        None \<Rightarrow> None
      | Some v \<Rightarrow> if truthy v then Some (InvalidTokenError InvalidAudienceError) else None)"

text \<open>\<open>sub\<close> and \<open>jti\<close>: when present, each must be a string.\<close>

definition validate_sub :: "py_dict \<Rightarrow> error option" where
  "validate_sub payload =
     (case payload ''sub'' of
        None \<Rightarrow> None
      | Some (JStr s) \<Rightarrow> None
      | Some _ \<Rightarrow> Some (InvalidTokenError InvalidSubjectError))"

definition validate_jti :: "py_dict \<Rightarrow> error option" where
  "validate_jti payload =
     (case payload ''jti'' of
        None \<Rightarrow> None
      | Some (JStr s) \<Rightarrow> None
      | Some _ \<Rightarrow> Some (InvalidTokenError InvalidJTIError))"

text \<open>The checks run in this order; the first exception ends the call.\<close>

fun first_raised :: "error option list \<Rightarrow> error option" where
  "first_raised [] = None"
| "first_raised (Some e # rest) = Some e"
| "first_raised (None # rest) = first_raised rest"

definition validate_claims :: "(string \<Rightarrow> int option) \<Rightarrow> real \<Rightarrow> py_dict \<Rightarrow> error + py_dict" where
  "validate_claims int_of_str now payload =
     (case first_raised
             [validate_iat int_of_str now payload,
              validate_nbf int_of_str now payload,
              validate_exp int_of_str now payload,
              validate_aud payload,
              validate_sub payload,
              validate_jti payload] of
        Some e \<Rightarrow> Inl e
      | None \<Rightarrow> Inr payload)"

text \<open>
  \<open>jwt.decode(token, key, algorithms=[...])\<close>: structure first, then the header's
  algorithm against the allowed list, then the signature, and only then the claims.
\<close>

definition jwt_decode ::
  "(string \<Rightarrow> int option) \<Rightarrow> real \<Rightarrow> token \<Rightarrow> string \<Rightarrow> string list \<Rightarrow> error + py_dict" where
  "jwt_decode int_of_str now tok key algorithms =
     (case tok of
        Malformed \<Rightarrow> Inl (InvalidTokenError DecodeError)
      | Signed alg k payload \<Rightarrow>
          if alg \<notin> set algorithms then Inl (InvalidTokenError InvalidAlgorithmError)
          else if k \<noteq> key then Inl (InvalidTokenError InvalidSignatureError)
          else validate_claims int_of_str now payload)"

subsection \<open>\<open>TokenData\<close>, \<open>create_access_token\<close>, \<open>verify_token\<close>\<close>

text \<open>
  \<open>TokenData(**payload)\<close>: both fields are required strings; keys the class does not
  declare (such as \<open>exp\<close>) are ignored. Anything else is pydantic's \<open>ValidationError\<close>
  (pydantic 2, for which the schemas' \<open>Config\<close> is written, coerces nothing to \<open>str\<close>).
\<close>

definition TokenData_init :: "py_dict \<Rightarrow> error + TokenData" where
  "TokenData_init kwargs =
     (case kwargs ''username'' of
        Some (JStr u) \<Rightarrow>
          (case kwargs ''role'' of
             Some (JStr r) \<Rightarrow> Inr \<lparr>TokenData_username = u, TokenData_role = r\<rparr>
           | _ \<Rightarrow> Inl ValidationError)
      | _ \<Rightarrow> Inl ValidationError)"

text \<open>
  \<open>create_access_token(username, role)\<close>. Its first argument here is the value of
  \<open>datetime.utcnow().timestamp()\<close> at the call, the only thing the function reads
  besides its two parameters. (That reading takes the naive UTC time for local time; it
  is the UTC clock \<open>jwt.decode\<close> reads only on a host whose zone is UTC, so the two
  clocks are kept apart here.)
\<close>

definition create_access_token :: "real \<Rightarrow> string \<Rightarrow> string \<Rightarrow> token" where
  "create_access_token utcnow_timestamp username role =
     (let payload = [''username'' \<mapsto> JStr username,
                     ''role'' \<mapsto> JStr role,
                     ''exp'' \<mapsto> JNum (utcnow_timestamp + 3600)]
      in jwt_encode payload SECRET_KEY ALGORITHM)"

text \<open>
  \<open>verify_token(credentials)\<close>: the \<open>try\<close> block decodes and builds the \<open>TokenData\<close>;
  the first handler catches \<open>ExpiredSignatureError\<close>, the second every other
  \<open>InvalidTokenError\<close>. An exception of another class (pydantic's \<open>ValidationError\<close>,
  a \<open>TypeError\<close>) is caught by neither and leaves the function as it is.
\<close>

definition verify_token :: "(string \<Rightarrow> int option) \<Rightarrow> real \<Rightarrow> token \<Rightarrow> error + TokenData" where
  "verify_token int_of_str now credentials =
     (case jwt_decode int_of_str now credentials SECRET_KEY [ALGORITHM] of
        Inr payload \<Rightarrow> TokenData_init payload
      | Inl (InvalidTokenError ExpiredSignatureError) \<Rightarrow>
          Inl (HTTPException 401 ''Token has expired'')
      | Inl (InvalidTokenError other) \<Rightarrow> Inl (HTTPException 401 ''Invalid token'')
      | Inl e \<Rightarrow> Inl e)"

text \<open>
  The input classes of a token, read off its parts. A token has plain claims when its
  payload holds none of the registered claims \<open>iat\<close>, \<open>nbf\<close>, \<open>aud\<close>, \<open>sub\<close> and \<open>jti\<close>
  and its \<open>exp\<close>, if any, is a JSON number: the payloads \<open>create_access_token\<close> writes
  are of this kind.
\<close>

definition validly_signed :: "token \<Rightarrow> bool" where
  "validly_signed tok =
     (case tok of Malformed \<Rightarrow> False | Signed alg k payload \<Rightarrow> alg = ALGORITHM \<and> k = SECRET_KEY)"

definition token_payload :: "token \<Rightarrow> py_dict" where
  "token_payload tok = (case tok of Malformed \<Rightarrow> Map.empty | Signed alg k payload \<Rightarrow> payload)"

definition plain_claims :: "token \<Rightarrow> bool" where
  "plain_claims tok =
     (token_payload tok ''iat'' = None \<and> token_payload tok ''nbf'' = None \<and>
      token_payload tok ''aud'' = None \<and> token_payload tok ''sub'' = None \<and>
      token_payload tok ''jti'' = None \<and>
      (case token_payload tok ''exp'' of None \<Rightarrow> True | Some (JNum e) \<Rightarrow> True | Some _ \<Rightarrow> False))"

definition expired :: "real \<Rightarrow> token \<Rightarrow> bool" where
  "expired now tok =
     (case token_payload tok ''exp'' of Some (JNum e) \<Rightarrow> real_of_int (py_int e) \<le> now | _ \<Rightarrow> False)"

definition carries_identity :: "token \<Rightarrow> bool" where
  "carries_identity tok =
     (case token_payload tok ''username'' of
        Some (JStr u) \<Rightarrow> (case token_payload tok ''role'' of Some (JStr r) \<Rightarrow> True | _ \<Rightarrow> False)
      | _ \<Rightarrow> False)"

definition token_exp :: "token \<Rightarrow> json option" where
  "token_exp tok = token_payload tok ''exp''"

section \<open>Models and schemas: \<open>examples/basic_example.py\<close>, \<open>tests/conftest.py\<close>\<close>

text \<open>
  \<open>class User(Base)\<close>: the columns besides the primary key \<open>id\<close>. No column is
  declared \<open>nullable=False\<close>, so each may hold NULL (\<open>None\<close>). A table is the list of
  its rows with their primary keys, in insertion order. \<open>created_at\<close> is a timestamp.
\<close>

record User =
  User_name :: "string option"
  User_email :: "string option"
  User_age :: "int option"
  User_role :: "string option"
  User_created_at :: "real option"

type_synonym users_table = "(int \<times> User) list"

text \<open>\<open>class UserCreate(BaseModel)\<close>: \<open>role: Optional[str] = "user"\<close>.\<close>

record UserCreate =
  UserCreate_name :: string
  UserCreate_email :: string
  UserCreate_age :: int
  UserCreate_role :: "string option"

text \<open>\<open>class UserUpdate(BaseModel)\<close> of the fixtures: every field \<open>Optional\<close>, default \<open>None\<close>.\<close>

record UserUpdate =
  UserUpdate_name :: "string option"
  UserUpdate_email :: "string option"
  UserUpdate_age :: "int option"

text \<open>
  \<open>class UserRead(BaseModel)\<close> of \<open>basic_example.py\<close>; the fixtures' \<open>UserRead\<close> is the
  same without \<open>created_at\<close>. No field is optional.
\<close>

record UserRead =
  UserRead_id :: int
  UserRead_name :: string
  UserRead_email :: string
  UserRead_age :: int
  UserRead_role :: string
  UserRead_created_at :: real

subsection \<open>Validation of a request body against a schema\<close>

text \<open>
  A required \<open>str\<close> field, a required \<open>int\<close> field (a JSON number with no fractional
  part), and an \<open>Optional\<close> field with a default: the default when the key is absent,
  \<open>None\<close> for an explicit null. Pydantic's coercions between types are not modelled.
\<close>

definition str_field :: "py_dict \<Rightarrow> string \<Rightarrow> error + string" where
  "str_field d k = (case d k of Some (JStr s) \<Rightarrow> Inr s | _ \<Rightarrow> Inl ValidationError)"

definition int_field :: "py_dict \<Rightarrow> string \<Rightarrow> error + int" where
  "int_field d k =
     (case d k of
        Some (JNum x) \<Rightarrow> if x = real_of_int \<lfloor>x\<rfloor> then Inr \<lfloor>x\<rfloor> else Inl ValidationError
      | _ \<Rightarrow> Inl ValidationError)"

definition optional_str_field :: "py_dict \<Rightarrow> string \<Rightarrow> string option \<Rightarrow> error + string option" where
  "optional_str_field d k dflt =
     (case d k of
        None \<Rightarrow> Inr dflt
      | Some JNull \<Rightarrow> Inr None
      | Some (JStr s) \<Rightarrow> Inr (Some s)
      | Some _ \<Rightarrow> Inl ValidationError)"

definition optional_int_field :: "py_dict \<Rightarrow> string \<Rightarrow> int option \<Rightarrow> error + int option" where
  "optional_int_field d k dflt =
     (case d k of
        None \<Rightarrow> Inr dflt
      | Some JNull \<Rightarrow> Inr None
      | Some (JNum x) \<Rightarrow> if x = real_of_int \<lfloor>x\<rfloor> then Inr (Some \<lfloor>x\<rfloor>) else Inl ValidationError
      | Some _ \<Rightarrow> Inl ValidationError)"

definition UserCreate_validate :: "py_dict \<Rightarrow> error + UserCreate" where
  "UserCreate_validate d =
     (case str_field d ''name'' of Inl e \<Rightarrow> Inl e | Inr n \<Rightarrow>
      case str_field d ''email'' of Inl e \<Rightarrow> Inl e | Inr m \<Rightarrow>
      case int_field d ''age'' of Inl e \<Rightarrow> Inl e | Inr a \<Rightarrow>
      case optional_str_field d ''role'' (Some ''user'') of Inl e \<Rightarrow> Inl e | Inr r \<Rightarrow>
        Inr \<lparr>UserCreate_name = n, UserCreate_email = m, UserCreate_age = a, UserCreate_role = r\<rparr>)"

definition UserUpdate_validate :: "py_dict \<Rightarrow> error + UserUpdate" where
  "UserUpdate_validate d =
     (case optional_str_field d ''name'' None of Inl e \<Rightarrow> Inl e | Inr n \<Rightarrow>
      case optional_str_field d ''email'' None of Inl e \<Rightarrow> Inl e | Inr m \<Rightarrow>
      case optional_int_field d ''age'' None of Inl e \<Rightarrow> Inl e | Inr a \<Rightarrow>
        Inr \<lparr>UserUpdate_name = n, UserUpdate_email = m, UserUpdate_age = a\<rparr>)"

text \<open>
  \<open>UserRead\<close> built from a row (\<open>from_attributes = True\<close>): every field is required, so a
  NULL column fails validation.
\<close>

definition UserRead_from_orm :: "int \<Rightarrow> User \<Rightarrow> error + UserRead" where
  "UserRead_from_orm i u =
     (case User_name u of None \<Rightarrow> Inl ValidationError | Some n \<Rightarrow>
      case User_email u of None \<Rightarrow> Inl ValidationError | Some m \<Rightarrow>
      case User_age u of None \<Rightarrow> Inl ValidationError | Some a \<Rightarrow>
      case User_role u of None \<Rightarrow> Inl ValidationError | Some r \<Rightarrow>
      case User_created_at u of None \<Rightarrow> Inl ValidationError | Some t \<Rightarrow>
        Inr \<lparr>UserRead_id = i, UserRead_name = n, UserRead_email = m, UserRead_age = a,
             UserRead_role = r, UserRead_created_at = t\<rparr>)"

subsection \<open>Constructing and inserting a row\<close>

text \<open>
  \<open>User(name=..., email=..., age=..., role=...)\<close> as \<open>sample_users\<close> calls it: keyword
  arguments, each possibly left out (\<open>None\<close>); \<open>created_at\<close> is never passed.
\<close>

definition User_init :: "string option \<Rightarrow> string option \<Rightarrow> int option \<Rightarrow> string option \<Rightarrow> User" where
  "User_init name email age role =
     \<lparr>User_name = name, User_email = email, User_age = age, User_role = role,
      User_created_at = None\<rparr>"

text \<open>
  The column defaults fire at INSERT for a column whose attribute is \<open>None\<close>:
  \<open>role = Column(String, default="user")\<close> and
  \<open>created_at = Column(DateTime, default=datetime.utcnow)\<close>.
\<close>

definition apply_column_defaults :: "real \<Rightarrow> User \<Rightarrow> User" where
  "apply_column_defaults utcnow u =
     u\<lparr>User_role := (case User_role u of None \<Rightarrow> Some ''user'' | Some r \<Rightarrow> Some r),
       User_created_at := (case User_created_at u of None \<Rightarrow> Some utcnow | Some t \<Rightarrow> Some t)\<rparr>"

text \<open>
  The engine of all three files is SQLite. Its INTEGER is a signed 64-bit number: the
  driver refuses to bind a Python int outside that range (\<open>OverflowError\<close>), for a
  column value as for a key.
\<close>

definition sqlite_integer :: "int \<Rightarrow> bool" where
  "sqlite_integer n = (- (2 ^ 63) \<le> n \<and> n < 2 ^ 63)"

definition MAX_ROWID :: int where
  "MAX_ROWID = 2 ^ 63 - 1"

text \<open>\<open>email = Column(String, unique=True)\<close>: two rows may not hold the same non-NULL email.\<close>

definition email_taken :: "users_table \<Rightarrow> string option \<Rightarrow> bool" where
  "email_taken tbl e = (case e of None \<Rightarrow> False | Some a \<Rightarrow> Some a \<in> set (map (User_email \<circ> snd) tbl))"

text \<open>
  The integer primary key SQLite assigns: 1 in an empty table, otherwise one more than
  the largest key in use. When the largest key is the largest possible, the engine draws
  positive keys at random and takes the first that is free; \<open>draws\<close> are the keys it
  draws, and it gives up when none of them is free.
\<close>

fun next_id :: "int list \<Rightarrow> users_table \<Rightarrow> int option" where
  "next_id draws [] = Some 1"
| "next_id draws ((k, u) # rest) =
     (if fold max (map fst rest) k < MAX_ROWID then Some (fold max (map fst rest) k + 1)
      else find (\<lambda>c. 0 < c \<and> c \<le> MAX_ROWID \<and> c \<notin> set (map fst ((k, u) # rest))) draws)"

text \<open>
  \<open>db.add(user); db.commit(); db.refresh(user)\<close>: the row is inserted with its defaults
  and a fresh primary key. Binding the values comes first (\<open>OverflowError\<close> for an age
  beyond 64 bits), then the engine picks the key (\<open>OperationalError\<close> when it finds
  none), then it checks the unique email (\<open>IntegrityError\<close>). The result is the key,
  the refreshed row and the new table.
\<close>

definition add_commit ::
  "int list \<Rightarrow> real \<Rightarrow> User \<Rightarrow> users_table \<Rightarrow> error + (int \<times> User \<times> users_table)" where
  "add_commit draws utcnow u tbl =
     (let row = apply_column_defaults utcnow u in
      if \<not> (case User_age row of None \<Rightarrow> True | Some a \<Rightarrow> sqlite_integer a) then Inl OverflowError
      else case next_id draws tbl of
             None \<Rightarrow> Inl OperationalError
           | Some k \<Rightarrow>
               if email_taken tbl (User_email row) then Inl IntegrityError
               else Inr (k, row, tbl @ [(k, row)]))"

section \<open>The generated routes\<close>

text \<open>
  The examples import \<open>AutoCRUDRouter\<close> from the package \<open>fastapi_autocrud_rishabh\<close>,
  which is not among the files. Its handlers are therefore modelled from section 4.1 of
  the specification, over the \<open>User\<close> model, the schemas and the SQLite table above.
  Every operation returns its result together with the table, also when it fails.
\<close>

text \<open>
  Modelled from the spec: what a handler of \<open>AutoCRUDRouter\<close> answers. The rows of a
  listing, one row, or the confirmation of a delete.
\<close>

datatype response = Rows "UserRead list" | Row UserRead | Deleted int

text \<open>
  Modelled from the spec: the serialisation step of the \<open>list\<close> handler of
  \<open>AutoCRUDRouter\<close>, "serialize each through ReadSchema".
\<close>

fun read_all :: "users_table \<Rightarrow> error + UserRead list" where
  "read_all [] = Inr []"
| "read_all ((i, u) # rest) =
     (case UserRead_from_orm i u of
        Inl e \<Rightarrow> Inl e
      | Inr r \<Rightarrow> (case read_all rest of Inl e \<Rightarrow> Inl e | Inr rs \<Rightarrow> Inr (r # rs)))"

text \<open>
  Modelled from the spec: the \<open>list\<close> handler of \<open>AutoCRUDRouter\<close>. "Read all Model
  rows via a scoped session; serialize each through ReadSchema."
\<close>

definition list_op :: "users_table \<Rightarrow> (error + response) \<times> users_table" where
  "list_op tbl = (map_sum id Rows (read_all tbl), tbl)"

text \<open>
  Modelled from the spec: the fetch step of the \<open>get\<close>, \<open>update\<close> and \<open>delete\<close>
  handlers of \<open>AutoCRUDRouter\<close>, "fetch by primary key (NotFound if absent)". The key
  is bound as a parameter of the query, which the driver refuses beyond 64 bits.
\<close>

definition fetch :: "users_table \<Rightarrow> int \<Rightarrow> error + User" where
  "fetch tbl i =
     (if \<not> sqlite_integer i then Inl OverflowError
      else case map_of tbl i of None \<Rightarrow> Inl NotFound | Some u \<Rightarrow> Inr u)"

text \<open>
  Modelled from the spec: the \<open>get\<close> handler of \<open>AutoCRUDRouter\<close>. "Fetch by primary
  key; fails with NotFound if absent."
\<close>

definition get_op :: "users_table \<Rightarrow> int \<Rightarrow> (error + response) \<times> users_table" where
  "get_op tbl i =
     (case fetch tbl i of
        Inl e \<Rightarrow> (Inl e, tbl)
      | Inr u \<Rightarrow> (map_sum id Row (UserRead_from_orm i u), tbl))"

text \<open>
  Modelled from the spec: the \<open>create\<close> handler of \<open>AutoCRUDRouter\<close>, past validation
  and the role check. "Construct and persist a new row; return serialized ReadSchema."
  The row is constructed from the fields of the validated body and inserted as above.
\<close>

definition create_op ::
  "int list \<Rightarrow> real \<Rightarrow> UserCreate \<Rightarrow> users_table \<Rightarrow> (error + response) \<times> users_table" where
  "create_op draws utcnow body tbl =
     (case add_commit draws utcnow
             (User_init (Some (UserCreate_name body)) (Some (UserCreate_email body))
                (Some (UserCreate_age body)) (UserCreate_role body)) tbl of
        Inl e \<Rightarrow> (Inl e, tbl)
      | Inr (i, row, tbl') \<Rightarrow> (map_sum id Row (UserRead_from_orm i row), tbl'))"

text \<open>
  Modelled from the spec: the field assignment of the \<open>update\<close> handler of
  \<open>AutoCRUDRouter\<close>, "apply partial or full field updates". A field of the update body
  left at its default \<open>None\<close> is not present; a present field is assigned to the row.
\<close>

definition apply_update :: "UserUpdate \<Rightarrow> User \<Rightarrow> User" where
  "apply_update body u =
     u\<lparr>User_name := (case UserUpdate_name body of None \<Rightarrow> User_name u | Some n \<Rightarrow> Some n),
       User_email := (case UserUpdate_email body of None \<Rightarrow> User_email u | Some m \<Rightarrow> Some m),
       User_age := (case UserUpdate_age body of None \<Rightarrow> User_age u | Some a \<Rightarrow> Some a)\<rparr>"

text \<open>
  Modelled from the spec: the \<open>update\<close> handler of \<open>AutoCRUDRouter\<close>, past validation
  and the role check. "Fetch by primary key (NotFound if absent); apply partial or full
  field updates; persist; return updated ReadSchema." Persisting fails as an insert
  does: on a new age beyond 64 bits, and when the new email is held by another row.
\<close>

definition update_op :: "users_table \<Rightarrow> int \<Rightarrow> UserUpdate \<Rightarrow> (error + response) \<times> users_table" where
  "update_op tbl i body =
     (case fetch tbl i of
        Inl e \<Rightarrow> (Inl e, tbl)
      | Inr u \<Rightarrow>
          if \<not> (case UserUpdate_age body of None \<Rightarrow> True | Some a \<Rightarrow> sqlite_integer a)
            then (Inl OverflowError, tbl)
          else if email_taken (AList.delete i tbl) (UserUpdate_email body)
            then (Inl IntegrityError, tbl)
          else (map_sum id Row (UserRead_from_orm i (apply_update body u)),
                AList.update i (apply_update body u) tbl))"

text \<open>
  Modelled from the spec: the \<open>delete\<close> handler of \<open>AutoCRUDRouter\<close>, past the role
  check. "Fetch (NotFound if absent); remove row; return confirmation."
\<close>

definition delete_op :: "users_table \<Rightarrow> int \<Rightarrow> (error + response) \<times> users_table" where
  "delete_op tbl i =
     (case fetch tbl i of
        Inl e \<Rightarrow> (Inl e, tbl)
      | Inr u \<Rightarrow> (Inr (Deleted i), AList.delete i tbl))"

subsection \<open>Requests, validation and the role check\<close>

text \<open>
  Modelled from the spec: a call of one of the five routes \<open>AutoCRUDRouter\<close> generates,
  with its path parameter and raw body.
\<close>

datatype call =
    ListCall
  | GetCall int
  | CreateCall py_dict
  | UpdateCall int py_dict
  | DeleteCall int

text \<open>
  Modelled from the spec: the operation name under which \<open>AutoCRUDRouter\<close> looks a
  route up in the role map. The names are the keys of the \<open>roles\<close> dict of
  \<open>advanced_example.py\<close>, with \<open>list\<close> and \<open>get\<close> for the two reading routes.
\<close>

fun operation :: "call \<Rightarrow> string" where
  "operation ListCall = ''list''"
| "operation (GetCall i) = ''get''"
| "operation (CreateCall d) = ''create''"
| "operation (UpdateCall i d) = ''update''"
| "operation (DeleteCall i) = ''delete''"

text \<open>
  Modelled from the spec: a route of \<open>AutoCRUDRouter\<close> past the role check. The body is
  validated before any access to the table ("invalid input schema: validation error
  surfaced to caller before any persistence attempt").
\<close>

fun perform :: "int list \<Rightarrow> real \<Rightarrow> call \<Rightarrow> users_table \<Rightarrow> (error + response) \<times> users_table" where
  "perform draws utcnow ListCall tbl = list_op tbl"
| "perform draws utcnow (GetCall i) tbl = get_op tbl i"
| "perform draws utcnow (CreateCall d) tbl =
     (case UserCreate_validate d of
        Inl e \<Rightarrow> (Inl e, tbl)
      | Inr body \<Rightarrow> create_op draws utcnow body tbl)"
| "perform draws utcnow (UpdateCall i d) tbl =
     (case UserUpdate_validate d of
        Inl e \<Rightarrow> (Inl e, tbl)
      | Inr body \<Rightarrow> update_op tbl i body)"
| "perform draws utcnow (DeleteCall i) tbl = delete_op tbl i"

text \<open>
  Modelled from the spec: the role enforcement algorithm of \<open>AutoCRUDRouter\<close>. "If
  role_map has no entry for the operation, it is unrestricted; otherwise the caller's
  role must be a member of the configured set, else Forbidden." The role is a string or
  absent, and an absent role is a member of no set.
\<close>

definition role_allowed :: "(string \<rightharpoonup> string list) \<Rightarrow> string \<Rightarrow> string option \<Rightarrow> bool" where
  "role_allowed roles op caller_role =
     (case roles op of
        None \<Rightarrow> True
      | Some allowed \<Rightarrow> (case caller_role of None \<Rightarrow> False | Some r \<Rightarrow> r \<in> set allowed))"

text \<open>
  Modelled from the spec: a handler of \<open>AutoCRUDRouter\<close> as a request meets it. The
  role is obtained through the supplied getter only. Section 4.1 lists the role check
  after the validation of a create body and after the fetch of an update or delete;
  section 8 requires that a caller whose role is not in the configured set "always
  receives Forbidden, regardless of payload validity". The two agree only when the role
  check comes first, so it does here: a caller who fails it receives Forbidden whatever
  the body and the table hold, and a caller who passes gets the operation itself.
\<close>

definition handle ::
  "(string \<rightharpoonup> string list) \<Rightarrow> ('req \<Rightarrow> string option) \<Rightarrow> int list \<Rightarrow> real \<Rightarrow> 'req \<Rightarrow> call
     \<Rightarrow> users_table \<Rightarrow> (error + response) \<times> users_table" where
  "handle roles user_role_getter draws utcnow request c tbl =
     (if role_allowed roles (operation c) (user_role_getter request)
        then perform draws utcnow c tbl
      else (Inl Forbidden, tbl))"

subsection \<open>The role wiring of \<open>advanced_example.py\<close>\<close>

text \<open>
  \<open>request.state\<close> either has the attribute \<open>user\<close>, set by \<open>add_user_to_request\<close>, or
  has not.
\<close>

record request =
  state_user :: "TokenData option"

definition add_user_to_request :: "request \<Rightarrow> TokenData \<Rightarrow> request \<times> TokenData" where
  "add_user_to_request req token_data = (req\<lparr>state_user := Some token_data\<rparr>, token_data)"

definition get_user_role :: "request \<Rightarrow> string option" where
  "get_user_role req =
     (case state_user req of Some user \<Rightarrow> Some (TokenData_role user) | None \<Rightarrow> None)"

definition user_router_roles :: "string \<rightharpoonup> string list" where
  "user_router_roles =
     [''delete'' \<mapsto> [''admin''],
      ''update'' \<mapsto> [''admin'', ''staff''],
      ''create'' \<mapsto> [''admin'']]"

section \<open>The session provider \<open>get_db\<close>\<close>

text \<open>
  The sessions of \<open>SessionLocal\<close>: how many were created so far, and which are open.
  \<open>SessionLocal()\<close> opens a new one; \<open>db.close()\<close> closes it.
\<close>

record session_pool =
  created :: nat
  open_sessions :: "nat set"

definition SessionLocal :: "session_pool \<Rightarrow> nat \<times> session_pool" where
  "SessionLocal pool =
     (created pool,
      pool\<lparr>created := Suc (created pool), open_sessions := insert (created pool) (open_sessions pool)\<rparr>)"

definition close :: "nat \<Rightarrow> session_pool \<Rightarrow> session_pool" where
  "close db pool = pool\<lparr>open_sessions := open_sessions pool - {db}\<rparr>"

text \<open>
  \<open>get_db\<close> is a generator: its frame is not started, suspended at \<open>yield db\<close> inside the
  \<open>try\<close> with the local \<open>db\<close>, or finished. \<open>get_db_next\<close> runs it to the next suspension:
  from the start it creates the session and yields it; resumed after the \<open>yield\<close> it
  leaves the \<open>try\<close>, runs the \<open>finally\<close> and returns. \<open>get_db_throw\<close> raises an
  exception at the \<open>yield\<close>: the \<open>finally\<close> runs and the exception goes on.
\<close>

datatype generator = Unstarted | Suspended nat | Finished

fun get_db_next :: "generator \<Rightarrow> session_pool \<Rightarrow> nat option \<times> generator \<times> session_pool" where
  "get_db_next Unstarted pool = (case SessionLocal pool of (db, pool') \<Rightarrow> (Some db, Suspended db, pool'))"
| "get_db_next (Suspended db) pool = (None, Finished, close db pool)"
| "get_db_next Finished pool = (None, Finished, pool)"

fun get_db_throw :: "generator \<Rightarrow> session_pool \<Rightarrow> generator \<times> session_pool" where
  "get_db_throw Unstarted pool = (Finished, pool)"
| "get_db_throw (Suspended db) pool = (Finished, close db pool)"
| "get_db_throw Finished pool = (Finished, pool)"

text \<open>
  One request that depends on \<open>get_db\<close>: the generator is advanced once, the unit of work
  runs with the yielded session, and the generator is then resumed when the work
  returned and thrown into when it raised. The work sees the sessions as they are while
  it runs (it can tell whether the session it was handed is open) and acts on the data
  it can reach. The result is the work's outcome, the pool and the data afterwards. A
  generator that yields nothing is a \<open>RuntimeError\<close>, as \<open>contextlib\<close> reports it.
\<close>

definition with_db ::
  "(nat \<Rightarrow> session_pool \<Rightarrow> 's \<Rightarrow> (error + 'a) \<times> 's) \<Rightarrow> session_pool \<Rightarrow> 's
     \<Rightarrow> (error + 'a) \<times> session_pool \<times> 's" where
  "with_db work pool s =
     (case get_db_next Unstarted pool of
        (None, g, pool1) \<Rightarrow> (Inl (RuntimeError ''generator did not yield''), pool1, s)
      | (Some db, g, pool1) \<Rightarrow>
          (case work db pool1 s of
             (Inr v, s') \<Rightarrow> (case get_db_next g pool1 of (y, g', pool2) \<Rightarrow> (Inr v, pool2, s'))
           | (Inl e, s') \<Rightarrow> (case get_db_throw g pool1 of (g', pool2) \<Rightarrow> (Inl e, pool2, s'))))"

section \<open>Tokens: what \<open>verify_token\<close> returns\<close>

lemmas claim_defs = validate_claims_def validate_iat_def validate_nbf_def validate_exp_def
  validate_aud_def validate_sub_def validate_jti_def py_int_of_def truthy_def

lemmas auth_defs = verify_token_def jwt_decode_def claim_defs TokenData_init_def
  validly_signed_def token_payload_def plain_claims_def expired_def carries_identity_def




text \<open>
  Claim C7. A token of \<open>create_access_token(u, r)\<close>, verified with the same key and
  algorithm before its expiry, gives back \<open>u\<close> and \<open>r\<close>. The expiry is the \<open>exp\<close> the
  token carries, in the whole seconds \<open>jwt.decode\<close> compares.
\<close>

theorem verify_fresh_token:
  assumes "now < real_of_int (py_int (utcnow_timestamp + 3600))"
  shows "verify_token int_of_str now (create_access_token utcnow_timestamp u r) =
           Inr \<lparr>TokenData_username = u, TokenData_role = r\<rparr>"
  using assms
  by (simp add: create_access_token_def jwt_encode_def auth_defs)

theorem verify_fresh_token_witness:
  "(1000 :: real) < real_of_int (py_int (1000 + 3600)) \<and>
   verify_token (\<lambda>s. None) 1000 (create_access_token 1000 ''alice'' ''admin'') =
     Inr \<lparr>TokenData_username = ''alice'', TokenData_role = ''admin''\<rparr>"
  using verify_fresh_token [of 1000 1000 "\<lambda>s. None" "''alice''" "''admin''"]
  by (simp add: py_int_def)

text \<open>
  Claim C8, as amended. The lifetime is not the caller's to choose:
  \<open>create_access_token\<close> takes the username and the role only, and every token it
  issues expires 3600 seconds after the clock reading at the call.
\<close>

theorem token_lifetime_fixed:
  "token_exp (create_access_token utcnow_timestamp u r) = Some (JNum (utcnow_timestamp + 3600))"
  by (simp add: token_exp_def token_payload_def create_access_token_def jwt_encode_def)

text \<open>
  Claim C8 as stated fails: at one clock reading no two calls, whatever their
  arguments, issue tokens with different expiry.
\<close>

theorem token_lifetime_configurable_counterexample:
  "\<not> (\<exists>u r u' r'. token_exp (create_access_token 1000 u r)
                     \<noteq> token_exp (create_access_token 1000 u' r'))"
  by (simp add: token_exp_def token_payload_def create_access_token_def jwt_encode_def)

section \<open>The table: fresh keys and lookups\<close>

lemma fold_max_ge_init: "(a::int) \<le> fold max xs a"
  by (induction xs arbitrary: a) (auto intro: order_trans [OF max.cobounded2])

lemma fold_max_ge_elem: "(x::int) \<in> set xs \<Longrightarrow> x \<le> fold max xs a"
proof (induction xs arbitrary: a)
  case Nil
  then show ?case by simp
next
  case (Cons y ys)
  show ?case
  proof (cases "x = y")
    case True
    have "y \<le> max y a" by simp
    also have "\<dots> \<le> fold max ys (max y a)" by (rule fold_max_ge_init)
    finally show ?thesis using True by simp
  next
    case False
    with Cons show ?thesis by simp
  qed
qed

lemma next_id_not_in_use:
  assumes "next_id draws tbl = Some k"
  shows "k \<notin> set (map fst tbl)"
proof (cases tbl)
  case Nil
  then show ?thesis by simp
next
  case (Cons p rest)
  obtain k0 u where p: "p = (k0, u)" by (cases p)
  let ?m = "fold max (map fst rest) k0"
  show ?thesis
  proof (cases "?m < MAX_ROWID")
    case True
    with assms Cons p have k: "k = ?m + 1" by simp
    have "x \<le> ?m" if "x \<in> set (map fst tbl)" for x
    proof (cases "x = k0")
      case True
      then show ?thesis by (simp add: fold_max_ge_init)
    next
      case False
      with that Cons p have "x \<in> set (map fst rest)" by auto
      then show ?thesis by (rule fold_max_ge_elem)
    qed
    with k show ?thesis by force
  next
    case False
    with assms Cons p
    have "find (\<lambda>c. 0 < c \<and> c \<le> MAX_ROWID \<and> c \<notin> set (map fst tbl)) draws = Some k"
      by simp
    then show ?thesis by (auto simp: find_Some_iff)
  qed
qed

lemma next_id_fresh: "next_id draws tbl = Some k \<Longrightarrow> map_of tbl k = None"
  using next_id_not_in_use [of draws tbl k] by (simp add: map_of_eq_None_iff)

text \<open>In a table whose keys are 64-bit integers, so is the key the engine assigns.\<close>

lemma next_id_sqlite_integer:
  assumes "next_id draws tbl = Some k" and "list_all (\<lambda>p. sqlite_integer (fst p)) tbl"
  shows "sqlite_integer k"
proof (cases tbl)
  case Nil
  with assms show ?thesis by (simp add: sqlite_integer_def)
next
  case (Cons p rest)
  obtain k0 u where p: "p = (k0, u)" by (cases p)
  let ?m = "fold max (map fst rest) k0"
  show ?thesis
  proof (cases "?m < MAX_ROWID")
    case True
    with assms Cons p have k: "k = ?m + 1" by simp
    have "k0 \<le> ?m" by (rule fold_max_ge_init)
    moreover have "sqlite_integer k0" using assms(2) Cons p by simp
    ultimately show ?thesis using k True by (simp add: sqlite_integer_def MAX_ROWID_def)
  next
    case False
    with assms Cons p
    have "find (\<lambda>c. 0 < c \<and> c \<le> MAX_ROWID \<and> c \<notin> set (map fst tbl)) draws = Some k"
      by simp
    then have "0 < k \<and> k \<le> MAX_ROWID" by (auto simp: find_Some_iff)
    then show ?thesis by (simp add: sqlite_integer_def MAX_ROWID_def)
  qed
qed

lemma add_commit_stores:
  assumes "add_commit draws utcnow u tbl = Inr (i, row, tbl')"
  shows "row = apply_column_defaults utcnow u \<and> next_id draws tbl = Some i \<and>
         map_of tbl' i = Some row"
  using assms
  by (auto simp: add_commit_def Let_def map_add_def next_id_fresh
      split: if_splits option.splits)





lemmas run_defs = create_op_def add_commit_def User_init_def apply_column_defaults_def
  UserRead_from_orm_def email_taken_def get_op_def delete_op_def update_op_def fetch_def
  apply_update_def sqlite_integer_def MAX_ROWID_def Let_def

lemmas route_defs = handle_def role_allowed_def user_router_roles_def get_user_role_def
  add_user_to_request_def UserCreate_validate_def UserUpdate_validate_def str_field_def
  int_field_def optional_str_field_def optional_int_field_def list_op_def

section \<open>The generated routes: round trips, missing rows, partial updates\<close>






text \<open>
  Claim C5. For an existing row and any update body, the stored row after
  \<open>update(id, body)\<close> keeps every field the body does not hold; \<open>role\<close> and
  \<open>created_at\<close>, which no update body can hold, are always kept, and so is every
  other row.
\<close>

theorem update_preserves_absent_fields:
  assumes "map_of tbl i = Some u" and "update_op tbl i body = (res, tbl')"
  shows "\<exists>u'. map_of tbl' i = Some u' \<and>
           (UserUpdate_name body = None \<longrightarrow> User_name u' = User_name u) \<and>
           (UserUpdate_email body = None \<longrightarrow> User_email u' = User_email u) \<and>
           (UserUpdate_age body = None \<longrightarrow> User_age u' = User_age u) \<and>
           User_role u' = User_role u \<and>
           User_created_at u' = User_created_at u \<and>
           (\<forall>j. j \<noteq> i \<longrightarrow> map_of tbl' j = map_of tbl j)"
  using assms
  by (auto simp: update_op_def fetch_def apply_update_def update_conv' split: if_splits)

theorem update_preserves_absent_fields_witness:
  "map_of [(1 :: int, \<lparr>User_name = Some ''Alice'', User_email = Some ''alice@example.com'',
          User_age = Some 25, User_role = Some ''admin'', User_created_at = Some 1000\<rparr>)] 1 = Some \<lparr>User_name = Some ''Alice'', User_email = Some ''alice@example.com'',
          User_age = Some 25, User_role = Some ''admin'', User_created_at = Some 1000\<rparr> \<and>
   update_op [(1, \<lparr>User_name = Some ''Alice'', User_email = Some ''alice@example.com'',
          User_age = Some 25, User_role = Some ''admin'', User_created_at = Some 1000\<rparr>)] 1
      \<lparr>UserUpdate_name = None, UserUpdate_email = None, UserUpdate_age = Some 26\<rparr> =
     (Inr (Row \<lparr>UserRead_id = 1, UserRead_name = ''Alice'', UserRead_email = ''alice@example.com'',
                UserRead_age = 26, UserRead_role = ''admin'', UserRead_created_at = 1000\<rparr>),
      [(1, \<lparr>User_name = Some ''Alice'', User_email = Some ''alice@example.com'',
            User_age = Some 26, User_role = Some ''admin'', User_created_at = Some 1000\<rparr>)])"
  using update_preserves_absent_fields [of "[(1, \<lparr>User_name = Some ''Alice'', User_email = Some ''alice@example.com'',
          User_age = Some 25, User_role = Some ''admin'', User_created_at = Some 1000\<rparr>)]" 1 "\<lparr>User_name = Some ''Alice'', User_email = Some ''alice@example.com'',
          User_age = Some 25, User_role = Some ''admin'', User_created_at = Some 1000\<rparr>"
      "\<lparr>UserUpdate_name = None, UserUpdate_email = None, UserUpdate_age = Some 26\<rparr>"
      "Inr (Row \<lparr>UserRead_id = 1, UserRead_name = ''Alice'', UserRead_email = ''alice@example.com'',
                UserRead_age = 26, UserRead_role = ''admin'', UserRead_created_at = 1000\<rparr>)"
      "[(1, \<lparr>User_name = Some ''Alice'', User_email = Some ''alice@example.com'',
            User_age = Some 26, User_role = Some ''admin'', User_created_at = Some 1000\<rparr>)]"]
  by (simp add: run_defs)

section \<open>The role check\<close>

text \<open>No operation fails with Forbidden by itself: only the role check does.\<close>

lemma UserRead_from_orm_error: "UserRead_from_orm i u = Inl e \<Longrightarrow> e = ValidationError"
  by (auto simp: UserRead_from_orm_def split: option.splits)

lemma read_all_error: "read_all tbl = Inl e \<Longrightarrow> e = ValidationError"
  by (induction tbl arbitrary: e rule: read_all.induct)
     (auto split: sum.splits dest: UserRead_from_orm_error)

lemma optional_str_field_error: "optional_str_field d k dflt = Inl e \<Longrightarrow> e = ValidationError"
  by (auto simp: optional_str_field_def split: option.splits json.splits)

lemma optional_int_field_error: "optional_int_field d k dflt = Inl e \<Longrightarrow> e = ValidationError"
  by (auto simp: optional_int_field_def split: option.splits json.splits if_splits)

lemma str_field_error: "str_field d k = Inl e \<Longrightarrow> e = ValidationError"
  by (auto simp: str_field_def split: option.splits json.splits)

lemma int_field_error: "int_field d k = Inl e \<Longrightarrow> e = ValidationError"
  by (auto simp: int_field_def split: option.splits json.splits if_splits)

lemma UserCreate_validate_error: "UserCreate_validate d = Inl e \<Longrightarrow> e = ValidationError"
  by (auto simp: UserCreate_validate_def split: sum.splits
      dest: str_field_error int_field_error optional_str_field_error)

lemma UserUpdate_validate_error: "UserUpdate_validate d = Inl e \<Longrightarrow> e = ValidationError"
  by (auto simp: UserUpdate_validate_def split: sum.splits
      dest: optional_int_field_error optional_str_field_error)

lemma fetch_error: "fetch tbl i = Inl e \<Longrightarrow> e = OverflowError \<or> e = NotFound"
  by (auto simp: fetch_def split: if_splits option.splits)

lemma add_commit_error:
  "add_commit draws utcnow u tbl = Inl e \<Longrightarrow>
     e = OverflowError \<or> e = OperationalError \<or> e = IntegrityError"
  by (auto simp: add_commit_def Let_def split: if_splits option.splits)

lemma list_op_not_forbidden: "fst (list_op tbl) \<noteq> Inl Forbidden"
  by (cases "read_all tbl") (auto simp: list_op_def dest: read_all_error)

lemma get_op_not_forbidden: "fst (get_op tbl i) \<noteq> Inl Forbidden"
proof (cases "fetch tbl i")
  case (Inl e)
  then show ?thesis by (auto simp: get_op_def dest: fetch_error)
next
  case (Inr u)
  then show ?thesis
    by (cases "UserRead_from_orm i u") (auto simp: get_op_def dest: UserRead_from_orm_error)
qed

lemma create_op_not_forbidden: "fst (create_op draws utcnow body tbl) \<noteq> Inl Forbidden"
proof (cases "add_commit draws utcnow
             (User_init (Some (UserCreate_name body)) (Some (UserCreate_email body))
                (Some (UserCreate_age body)) (UserCreate_role body)) tbl")
  case (Inl e)
  then show ?thesis by (auto simp: create_op_def dest: add_commit_error)
next
  case (Inr p)
  obtain i row tbl' where p: "p = (i, row, tbl')" by (cases p)
  show ?thesis
    using Inr p
    by (cases "UserRead_from_orm i row") (auto simp: create_op_def dest: UserRead_from_orm_error)
qed

lemma update_op_not_forbidden: "fst (update_op tbl i body) \<noteq> Inl Forbidden"
proof (cases "fetch tbl i")
  case (Inl e)
  then show ?thesis by (auto simp: update_op_def dest: fetch_error)
next
  case (Inr u)
  then show ?thesis
    by (cases "UserRead_from_orm i (apply_update body u)")
       (auto simp: update_op_def dest: UserRead_from_orm_error)
qed

lemma delete_op_not_forbidden: "fst (delete_op tbl i) \<noteq> Inl Forbidden"
  by (cases "fetch tbl i") (auto simp: delete_op_def dest: fetch_error)

lemma perform_not_forbidden: "fst (perform draws utcnow c tbl) \<noteq> Inl Forbidden"
proof (cases c)
  case ListCall
  then show ?thesis by (simp add: list_op_not_forbidden)
next
  case (GetCall i)
  then show ?thesis by (simp add: get_op_not_forbidden)
next
  case (CreateCall d)
  then show ?thesis
    by (cases "UserCreate_validate d")
       (auto simp: create_op_not_forbidden dest: UserCreate_validate_error)
next
  case (UpdateCall i d)
  then show ?thesis
    by (cases "UserUpdate_validate d")
       (auto simp: update_op_not_forbidden dest: UserUpdate_validate_error)
next
  case (DeleteCall i)
  then show ?thesis by (simp add: delete_op_not_forbidden)
qed

text \<open>
  Claim C1. For every call of a route: with no entry for its operation in the role map
  the handler is the operation itself, whatever the caller's role; with an entry, the
  role check passes exactly when the role the getter returns is one of the configured
  roles, the handler is then the operation itself, and otherwise the caller receives
  Forbidden and the table is untouched, whatever the body holds.
\<close>

theorem role_enforcement:
  "(roles (operation c) = None \<longrightarrow>
      handle roles getter draws utcnow req c tbl = perform draws utcnow c tbl) \<and>
   (roles (operation c) = Some allowed \<longrightarrow>
      (role_allowed roles (operation c) (getter req) \<longleftrightarrow> getter req \<in> Some ` set allowed) \<and>
      (getter req \<in> Some ` set allowed \<longrightarrow>
         handle roles getter draws utcnow req c tbl = perform draws utcnow c tbl) \<and>
      (getter req \<notin> Some ` set allowed \<longrightarrow>
         handle roles getter draws utcnow req c tbl = (Inl Forbidden, tbl)) \<and>
      (fst (handle roles getter draws utcnow req c tbl) = Inl Forbidden \<longleftrightarrow>
         getter req \<notin> Some ` set allowed))"
proof (intro conjI impI)
  assume "roles (operation c) = None"
  then show "handle roles getter draws utcnow req c tbl = perform draws utcnow c tbl"
    by (simp add: handle_def role_allowed_def)
next
  assume a: "roles (operation c) = Some allowed"
  then show m: "role_allowed roles (operation c) (getter req) \<longleftrightarrow> getter req \<in> Some ` set allowed"
    by (cases "getter req") (auto simp: role_allowed_def)
  show "fst (handle roles getter draws utcnow req c tbl) = Inl Forbidden \<longleftrightarrow>
          getter req \<notin> Some ` set allowed"
    using m perform_not_forbidden [of draws utcnow c tbl] by (simp add: handle_def)
  {
    assume "getter req \<in> Some ` set allowed"
    with m show "handle roles getter draws utcnow req c tbl = perform draws utcnow c tbl"
      by (simp add: handle_def)
  }
  {
    assume "getter req \<notin> Some ` set allowed"
    with m show "handle roles getter draws utcnow req c tbl = (Inl Forbidden, tbl)"
      by (simp add: handle_def)
  }
qed

text \<open>
  With the role map of \<open>advanced_example.py\<close>: an invalid create body is Forbidden for
  role \<open>user\<close> and a validation error for role \<open>admin\<close>; listing has no entry and is
  open to a request with no user at all.
\<close>

theorem role_enforcement_witness:
  "handle user_router_roles get_user_role [] 1000
      \<lparr>state_user = Some \<lparr>TokenData_username = ''bob'', TokenData_role = ''user''\<rparr>\<rparr>
      (CreateCall Map.empty) [] = (Inl Forbidden, []) \<and>
   handle user_router_roles get_user_role [] 1000
      \<lparr>state_user = Some \<lparr>TokenData_username = ''alice'', TokenData_role = ''admin''\<rparr>\<rparr>
      (CreateCall Map.empty) [] = (Inl ValidationError, []) \<and>
   handle user_router_roles get_user_role [] 1000 \<lparr>state_user = None\<rparr> ListCall [] = (Inr (Rows []), [])"
  using
    role_enforcement [of user_router_roles "CreateCall Map.empty" get_user_role "[]" 1000
      "\<lparr>state_user = Some \<lparr>TokenData_username = ''bob'', TokenData_role = ''user''\<rparr>\<rparr>" "[]" "[''admin'']"]
    role_enforcement [of user_router_roles "CreateCall Map.empty" get_user_role "[]" 1000
      "\<lparr>state_user = Some \<lparr>TokenData_username = ''alice'', TokenData_role = ''admin''\<rparr>\<rparr>" "[]" "[''admin'']"]
    role_enforcement [of user_router_roles ListCall get_user_role "[]" 1000 "\<lparr>state_user = None\<rparr>" "[]" "[]"]
  by (simp add: user_router_roles_def get_user_role_def UserCreate_validate_def str_field_def list_op_def)

text \<open>
  Claim C4, as amended. At a 64-bit primary key with no row, \<open>get\<close>, \<open>update\<close> with a
  validated body and \<open>delete\<close> each fail with NotFound and return the table as it was;
  so do their routes for a caller who passes the role check of the operation, the update
  route when its raw body is valid. At the same key a caller who fails the role check
  receives Forbidden, and an update whose raw body is invalid a validation error; the
  table is as it was in both.
\<close>

theorem missing_row_not_found:
  assumes "map_of tbl i = None" and "sqlite_integer i"
  shows "get_op tbl i = (Inl NotFound, tbl) \<and>
         update_op tbl i body = (Inl NotFound, tbl) \<and>
         delete_op tbl i = (Inl NotFound, tbl) \<and>
         (role_allowed roles ''get'' (getter req) \<longrightarrow>
            handle roles getter draws utcnow req (GetCall i) tbl = (Inl NotFound, tbl)) \<and>
         (role_allowed roles ''update'' (getter req) \<and> UserUpdate_validate d = Inr body \<longrightarrow>
            handle roles getter draws utcnow req (UpdateCall i d) tbl = (Inl NotFound, tbl)) \<and>
         (role_allowed roles ''delete'' (getter req) \<longrightarrow>
            handle roles getter draws utcnow req (DeleteCall i) tbl = (Inl NotFound, tbl)) \<and>
         (role_allowed roles ''update'' (getter req) \<and> UserUpdate_validate d = Inl e \<longrightarrow>
            handle roles getter draws utcnow req (UpdateCall i d) tbl = (Inl ValidationError, tbl)) \<and>
         (\<not> role_allowed roles ''get'' (getter req) \<longrightarrow>
            handle roles getter draws utcnow req (GetCall i) tbl = (Inl Forbidden, tbl)) \<and>
         (\<not> role_allowed roles ''update'' (getter req) \<longrightarrow>
            handle roles getter draws utcnow req (UpdateCall i d) tbl = (Inl Forbidden, tbl)) \<and>
         (\<not> role_allowed roles ''delete'' (getter req) \<longrightarrow>
            handle roles getter draws utcnow req (DeleteCall i) tbl = (Inl Forbidden, tbl))"
proof -
  have ops: "get_op tbl i = (Inl NotFound, tbl)" "update_op tbl i body = (Inl NotFound, tbl)"
    "delete_op tbl i = (Inl NotFound, tbl)"
    using assms by (simp_all add: get_op_def update_op_def delete_op_def fetch_def)
  have invalid: "e = ValidationError" if "UserUpdate_validate d = Inl e"
    using that by (rule UserUpdate_validate_error)
  show ?thesis
    using ops invalid by (auto simp: handle_def)
qed

text \<open>
  With the role map of \<open>advanced_example.py\<close> and Alice stored under key 1: at key 2 an
  admin is told NotFound by all three routes, a request with no user is told Forbidden
  by the delete route, and an admin's update with a malformed age is a validation error.
\<close>

theorem missing_row_not_found_witness:
  "map_of [(1 :: int, \<lparr>User_name = Some ''Alice'', User_email = Some ''alice@example.com'',
          User_age = Some 25, User_role = Some ''admin'', User_created_at = Some 1000\<rparr>)] 2 = None \<and>
   sqlite_integer 2 \<and>
   handle user_router_roles get_user_role [] 1000
      \<lparr>state_user = Some \<lparr>TokenData_username = ''alice'', TokenData_role = ''admin''\<rparr>\<rparr>
      (GetCall 2)
      [(1, \<lparr>User_name = Some ''Alice'', User_email = Some ''alice@example.com'',
          User_age = Some 25, User_role = Some ''admin'', User_created_at = Some 1000\<rparr>)] =
     (Inl NotFound,
      [(1, \<lparr>User_name = Some ''Alice'', User_email = Some ''alice@example.com'',
          User_age = Some 25, User_role = Some ''admin'', User_created_at = Some 1000\<rparr>)]) \<and>
   handle user_router_roles get_user_role [] 1000
      \<lparr>state_user = Some \<lparr>TokenData_username = ''alice'', TokenData_role = ''admin''\<rparr>\<rparr>
      (UpdateCall 2 [''name'' \<mapsto> JStr ''Bob''])
      [(1, \<lparr>User_name = Some ''Alice'', User_email = Some ''alice@example.com'',
          User_age = Some 25, User_role = Some ''admin'', User_created_at = Some 1000\<rparr>)] =
     (Inl NotFound,
      [(1, \<lparr>User_name = Some ''Alice'', User_email = Some ''alice@example.com'',
          User_age = Some 25, User_role = Some ''admin'', User_created_at = Some 1000\<rparr>)]) \<and>
   handle user_router_roles get_user_role [] 1000
      \<lparr>state_user = Some \<lparr>TokenData_username = ''alice'', TokenData_role = ''admin''\<rparr>\<rparr>
      (DeleteCall 2)
      [(1, \<lparr>User_name = Some ''Alice'', User_email = Some ''alice@example.com'',
          User_age = Some 25, User_role = Some ''admin'', User_created_at = Some 1000\<rparr>)] =
     (Inl NotFound,
      [(1, \<lparr>User_name = Some ''Alice'', User_email = Some ''alice@example.com'',
          User_age = Some 25, User_role = Some ''admin'', User_created_at = Some 1000\<rparr>)]) \<and>
   handle user_router_roles get_user_role [] 1000 \<lparr>state_user = None\<rparr>
      (DeleteCall 2)
      [(1, \<lparr>User_name = Some ''Alice'', User_email = Some ''alice@example.com'',
          User_age = Some 25, User_role = Some ''admin'', User_created_at = Some 1000\<rparr>)] =
     (Inl Forbidden,
      [(1, \<lparr>User_name = Some ''Alice'', User_email = Some ''alice@example.com'',
          User_age = Some 25, User_role = Some ''admin'', User_created_at = Some 1000\<rparr>)]) \<and>
   handle user_router_roles get_user_role [] 1000
      \<lparr>state_user = Some \<lparr>TokenData_username = ''alice'', TokenData_role = ''admin''\<rparr>\<rparr>
      (UpdateCall 2 [''age'' \<mapsto> JStr ''x''])
      [(1, \<lparr>User_name = Some ''Alice'', User_email = Some ''alice@example.com'',
          User_age = Some 25, User_role = Some ''admin'', User_created_at = Some 1000\<rparr>)] =
     (Inl ValidationError,
      [(1, \<lparr>User_name = Some ''Alice'', User_email = Some ''alice@example.com'',
          User_age = Some 25, User_role = Some ''admin'', User_created_at = Some 1000\<rparr>)])"
  using
    missing_row_not_found [where tbl = "[(1, \<lparr>User_name = Some ''Alice'', User_email = Some ''alice@example.com'',
          User_age = Some 25, User_role = Some ''admin'', User_created_at = Some 1000\<rparr>)]"
      and i = 2 and roles = user_router_roles and getter = get_user_role
      and req = "\<lparr>state_user = Some \<lparr>TokenData_username = ''alice'', TokenData_role = ''admin''\<rparr>\<rparr>"
      and d = "[''name'' \<mapsto> JStr ''Bob'']"
      and body = "\<lparr>UserUpdate_name = Some ''Bob'', UserUpdate_email = None, UserUpdate_age = None\<rparr>"
      and draws = "[]" and utcnow = 1000 and e = ValidationError]
    missing_row_not_found [where tbl = "[(1, \<lparr>User_name = Some ''Alice'', User_email = Some ''alice@example.com'',
          User_age = Some 25, User_role = Some ''admin'', User_created_at = Some 1000\<rparr>)]"
      and i = 2 and roles = user_router_roles and getter = get_user_role
      and req = "\<lparr>state_user = None\<rparr>"
      and d = "[''name'' \<mapsto> JStr ''Bob'']"
      and body = "\<lparr>UserUpdate_name = Some ''Bob'', UserUpdate_email = None, UserUpdate_age = None\<rparr>"
      and draws = "[]" and utcnow = 1000 and e = ValidationError]
    missing_row_not_found [where tbl = "[(1, \<lparr>User_name = Some ''Alice'', User_email = Some ''alice@example.com'',
          User_age = Some 25, User_role = Some ''admin'', User_created_at = Some 1000\<rparr>)]"
      and i = 2 and roles = user_router_roles and getter = get_user_role
      and req = "\<lparr>state_user = Some \<lparr>TokenData_username = ''alice'', TokenData_role = ''admin''\<rparr>\<rparr>"
      and d = "[''age'' \<mapsto> JStr ''x'']"
      and body = "\<lparr>UserUpdate_name = None, UserUpdate_email = None, UserUpdate_age = None\<rparr>"
      and draws = "[]" and utcnow = 1000 and e = ValidationError]
  by (simp add: route_defs sqlite_integer_def)

text \<open>
  Claim C4 as stated fails at the routes: at a key with no row, a caller outside the
  configured roles receives Forbidden, an update with an invalid body a validation
  error, and a key beyond 64 bits is refused by the driver; none of them NotFound.
\<close>

theorem missing_row_other_failures_counterexample:
  "map_of ([] :: users_table) 2 = None \<and>
   handle user_router_roles get_user_role [] 1000 \<lparr>state_user = None\<rparr> (DeleteCall 2) [] =
     (Inl Forbidden, []) \<and>
   handle user_router_roles get_user_role [] 1000
      \<lparr>state_user = Some \<lparr>TokenData_username = ''bob'', TokenData_role = ''user''\<rparr>\<rparr>
      (UpdateCall 2 [''name'' \<mapsto> JStr ''Bob'']) [] = (Inl Forbidden, []) \<and>
   perform [] 1000 (UpdateCall 2 [''age'' \<mapsto> JStr ''x'']) [] = (Inl ValidationError, []) \<and>
   map_of ([] :: users_table) 9223372036854775808 = None \<and>
   perform [] 1000 (GetCall 9223372036854775808) [] = (Inl OverflowError, [])"
  by (simp add: route_defs get_op_def fetch_def sqlite_integer_def)

text \<open>
  The example scenario of the specification: Alice is created; deleting her as role
  \<open>user\<close> is Forbidden; as role \<open>admin\<close> it succeeds, and the row is then not found.
\<close>

lemma example_scenario:
  "perform [] 1000
     (CreateCall [''name'' \<mapsto> JStr ''Alice'', ''email'' \<mapsto> JStr ''alice@example.com'',
                  ''age'' \<mapsto> JNum 25, ''role'' \<mapsto> JStr ''admin'']) [] =
     (Inr (Row \<lparr>UserRead_id = 1, UserRead_name = ''Alice'', UserRead_email = ''alice@example.com'',
                UserRead_age = 25, UserRead_role = ''admin'', UserRead_created_at = 1000\<rparr>),
      [(1, \<lparr>User_name = Some ''Alice'', User_email = Some ''alice@example.com'',
          User_age = Some 25, User_role = Some ''admin'', User_created_at = Some 1000\<rparr>)]) \<and>
   handle user_router_roles get_user_role [] 2000
      (fst (add_user_to_request \<lparr>state_user = None\<rparr>
              \<lparr>TokenData_username = ''bob'', TokenData_role = ''user''\<rparr>))
      (DeleteCall 1) [(1, \<lparr>User_name = Some ''Alice'', User_email = Some ''alice@example.com'',
          User_age = Some 25, User_role = Some ''admin'', User_created_at = Some 1000\<rparr>)] =
     (Inl Forbidden, [(1, \<lparr>User_name = Some ''Alice'', User_email = Some ''alice@example.com'',
          User_age = Some 25, User_role = Some ''admin'', User_created_at = Some 1000\<rparr>)]) \<and>
   handle user_router_roles get_user_role [] 2000
      (fst (add_user_to_request \<lparr>state_user = None\<rparr>
              \<lparr>TokenData_username = ''alice'', TokenData_role = ''admin''\<rparr>))
      (DeleteCall 1) [(1, \<lparr>User_name = Some ''Alice'', User_email = Some ''alice@example.com'',
          User_age = Some 25, User_role = Some ''admin'', User_created_at = Some 1000\<rparr>)] =
     (Inr (Deleted 1), []) \<and>
   handle user_router_roles get_user_role [] 2000
      \<lparr>state_user = Some \<lparr>TokenData_username = ''alice'', TokenData_role = ''admin''\<rparr>\<rparr>
      (GetCall 1) [] = (Inl NotFound, [])"
  by (simp add: run_defs route_defs)

section \<open>The session provider\<close>

text \<open>
  Claim C9. A request that depends on \<open>get_db\<close> creates exactly one session, the one
  numbered \<open>created pool\<close>; the unit of work runs with that session while it is open
  (\<open>during\<close> is the pool the work sees); afterwards the session is closed (\<open>after\<close>),
  whether the work returned or raised, and the work's outcome is passed on unchanged.
\<close>

theorem get_db_scoped_session:
  "(let db = created pool;
        during = pool\<lparr>created := Suc (created pool),
                      open_sessions := insert db (open_sessions pool)\<rparr>;
        after = during\<lparr>open_sessions := open_sessions during - {db}\<rparr>
    in with_db work pool s = (fst (work db during s), after, snd (work db during s)) \<and>
       db \<in> open_sessions during \<and>
       db \<notin> open_sessions after \<and>
       created after = Suc (created pool))"
proof (cases "work (created pool)
                (pool\<lparr>created := Suc (created pool),
                      open_sessions := insert (created pool) (open_sessions pool)\<rparr>) s")
  case (Pair res s')
  then show ?thesis
    by (cases res) (simp_all add: with_db_def SessionLocal_def close_def Let_def)
qed

text \<open>
  A unit of work that reports whether its session is open, and one that raises when it
  is: the first returns \<open>True\<close>, the second's exception is passed on, and the session
  is closed after both.
\<close>

theorem get_db_scoped_session_witness:
  "with_db (\<lambda>db pool s. (Inr (db \<in> open_sessions pool) :: error + bool, s))
      \<lparr>created = 0, open_sessions = {}\<rparr> () =
     (Inr True, \<lparr>created = 1, open_sessions = {}\<rparr>, ()) \<and>
   with_db (\<lambda>db pool s.
        (if db \<in> open_sessions pool then Inl IntegrityError else Inr False :: error + bool, s))
      \<lparr>created = 0, open_sessions = {}\<rparr> () =
     (Inl IntegrityError, \<lparr>created = 1, open_sessions = {}\<rparr>, ())"
  using
    get_db_scoped_session [of "\<lparr>created = 0, open_sessions = {}\<rparr>"
      "\<lambda>db pool s. (Inr (db \<in> open_sessions pool) :: error + bool, s)" "()"]
    get_db_scoped_session [of "\<lparr>created = 0, open_sessions = {}\<rparr>"
      "\<lambda>db pool s.
        (if db \<in> open_sessions pool then Inl IntegrityError else Inr False :: error + bool, s)" "()"]
  by (simp add: Let_def)

section \<open>The default role\<close>

text \<open>
  Claim C10. A create body without a \<open>role\<close> key validates to \<open>role = "user"\<close>; a
  \<open>User\<close> inserted with no role is stored with \<open>role = "user"\<close>; so the row inserted
  from such a body has the role \<open>"user"\<close>.
\<close>

theorem absent_role_defaults_to_user:
  "(d ''role'' = None \<and> UserCreate_validate d = Inr body \<longrightarrow>
      UserCreate_role body = Some ''user'') \<and>
   (add_commit draws utcnow (User_init name email age None) tbl = Inr (i, row, tbl') \<longrightarrow>
      User_role row = Some ''user'' \<and> map_of tbl' i = Some row) \<and>
   (d ''role'' = None \<and> UserCreate_validate d = Inr body \<and>
    add_commit draws utcnow
      (User_init (Some (UserCreate_name body)) (Some (UserCreate_email body))
         (Some (UserCreate_age body)) (UserCreate_role body)) tbl = Inr (i, row, tbl') \<longrightarrow>
      User_role row = Some ''user'' \<and> map_of tbl' i = Some row)"
proof -
  have schema: "UserCreate_role body = Some ''user''"
    if "d ''role'' = None" and "UserCreate_validate d = Inr body"
    using that
    by (auto simp: UserCreate_validate_def optional_str_field_def split: sum.splits)
  have column: "User_role row = Some ''user'' \<and> map_of tbl' i = Some row"
    if "add_commit draws utcnow u tbl = Inr (i, row, tbl')"
      and "User_role u = None \<or> User_role u = Some ''user''"
    for u
    using add_commit_stores [OF that(1)] that(2)
    by (auto simp: apply_column_defaults_def)
  show ?thesis
    using schema column [of "User_init name email age None"]
      column [of "User_init (Some (UserCreate_name body)) (Some (UserCreate_email body))
         (Some (UserCreate_age body)) (UserCreate_role body)"]
    by (auto simp: User_init_def)
qed

theorem absent_role_defaults_to_user_witness:
  "UserCreate_validate
     [''name'' \<mapsto> JStr ''Bob'', ''email'' \<mapsto> JStr ''bob@example.com'', ''age'' \<mapsto> JNum 30] =
     Inr \<lparr>UserCreate_name = ''Bob'', UserCreate_email = ''bob@example.com'',
          UserCreate_age = 30, UserCreate_role = Some ''user''\<rparr> \<and>
   add_commit [] 1000 (User_init (Some ''Bob'') (Some ''bob@example.com'') (Some 30) None) [] =
     Inr (1,
          \<lparr>User_name = Some ''Bob'', User_email = Some ''bob@example.com'', User_age = Some 30,
           User_role = Some ''user'', User_created_at = Some 1000\<rparr>,
          [(1, \<lparr>User_name = Some ''Bob'', User_email = Some ''bob@example.com'',
                User_age = Some 30, User_role = Some ''user'', User_created_at = Some 1000\<rparr>)]) \<and>
   add_commit [] 1000 (User_init (Some ''Bob'') (Some ''bob@example.com'') (Some 30) (Some ''user'')) [] =
     Inr (1,
          \<lparr>User_name = Some ''Bob'', User_email = Some ''bob@example.com'', User_age = Some 30,
           User_role = Some ''user'', User_created_at = Some 1000\<rparr>,
          [(1, \<lparr>User_name = Some ''Bob'', User_email = Some ''bob@example.com'',
                User_age = Some 30, User_role = Some ''user'', User_created_at = Some 1000\<rparr>)])"
  using absent_role_defaults_to_user
    [of "[''name'' \<mapsto> JStr ''Bob'', ''email'' \<mapsto> JStr ''bob@example.com'', ''age'' \<mapsto> JNum 30]"
        "\<lparr>UserCreate_name = ''Bob'', UserCreate_email = ''bob@example.com'',
          UserCreate_age = 30, UserCreate_role = Some ''user''\<rparr>"
        "[]" 1000 "Some ''Bob''" "Some ''bob@example.com''" "Some 30" "[]" 1
        "\<lparr>User_name = Some ''Bob'', User_email = Some ''bob@example.com'', User_age = Some 30,
           User_role = Some ''user'', User_created_at = Some 1000\<rparr>"
        "[(1, \<lparr>User_name = Some ''Bob'', User_email = Some ''bob@example.com'',
                User_age = Some 30, User_role = Some ''user'', User_created_at = Some 1000\<rparr>)]"]
  by (simp add: run_defs UserCreate_validate_def str_field_def int_field_def optional_str_field_def)

end
